theory Spec2Isabelle
  imports Complex_Main "HOL-Library.AList"
begin

section \<open>QMigrate.io.core: station, response and velocity-model readers, and the Run class\<close>

text \<open>
  The module \<^verbatim>\<open>QMigrate/io/core.py\<close> is glue over pandas, ObsPy, pathlib and the
  package's own \<^verbatim>\<open>util\<close> module. The functions of the module are embedded as they are
  written; what they call outside the module is a field of the record \<open>ext\<close> below, so every
  theorem holds for every behaviour of those collaborators.
\<close>

subsection \<open>Exceptions\<close>

text \<open>
  Every exception the module raises itself or lets through. \<open>OtherError\<close> stands for any
  exception of a collaborator that the module does not name (a missing file, a parser
  error): the module never catches it. \<open>TypeError\<close> carries \<^verbatim>\<open>str(e)\<close>.
\<close>

datatype exn =
    StationFileHeaderException
  | VelocityModelFileHeaderException
  | NotImplementedError string
  | TypeError string
  | KeyError string
  | OtherError string

subsection \<open>Values, columns and tables\<close>

text \<open>
  A cell of a pandas column, as a Python object: an int (unbounded), a float (a finite
  float by its real value, the infinities by their sign, NaN), a bool or a str.
\<close>

datatype pyval =
    PyInt int
  | PyFloat real
  | PyInf bool
  | PyNaN
  | PyBool bool
  | PyStr string

type_synonym series = "pyval list"

text \<open>
  A DataFrame: the columns in header order, each label with its values. \<^verbatim>\<open>pd.read_csv\<close>
  renames repeated header names, so the labels of a table it returns are distinct.
\<close>

type_synonym dataframe = "(string \<times> series) list"

definition columns :: "dataframe \<Rightarrow> string list" where
  "columns df = map fst df"

text \<open>\<^verbatim>\<open>df[key]\<close>: the column, or KeyError.\<close>

definition getitem :: "dataframe \<Rightarrow> string \<Rightarrow> exn + series" where
  "getitem df key = (case map_of df key of None \<Rightarrow> Inl (KeyError key) | Some s \<Rightarrow> Inr s)"

text \<open>\<^verbatim>\<open>df[key] = s\<close>: replaces the column in place, or appends a new last column.\<close>

definition setitem :: "dataframe \<Rightarrow> string \<Rightarrow> series \<Rightarrow> dataframe" where
  "setitem df key s = AList.update key s df"

text \<open>\<^verbatim>\<open>Series.apply(f)\<close>: \<open>f\<close> on every value, in order.\<close>

definition series_apply :: "series \<Rightarrow> (pyval \<Rightarrow> pyval) \<Rightarrow> series" where
  "series_apply s f = map f s"

text \<open>
  \<^verbatim>\<open>lambda x: -1*x\<close> on a Python object. On a float the product with \<open>-1\<close> is exact; a bool
  is the int 0 or 1; a str repeated a negative number of times is the empty str.
\<close>

fun elevation_lambda :: "pyval \<Rightarrow> pyval" where
  "elevation_lambda (PyInt i) = PyInt (-1 * i)"
| "elevation_lambda (PyFloat r) = PyFloat (-1 * r)"
| "elevation_lambda (PyInf negative) = PyInf (\<not> negative)"
| "elevation_lambda PyNaN = PyNaN"
| "elevation_lambda (PyBool b) = PyInt (-1 * (if b then 1 else 0))"
| "elevation_lambda (PyStr s) = PyStr []"

text \<open>\<^verbatim>\<open>str(x)\<close>. Decimal digits of a natural number, then of an int.\<close>

fun digits :: "nat \<Rightarrow> string" where
  "digits n =
     (if n < 10 then [char_of (48 + n)] else digits (n div 10) @ [char_of (48 + n mod 10)])"

definition str_int :: "int \<Rightarrow> string" where
  "str_int i = (if i < 0 then CHR ''-'' # digits (nat (- i)) else digits (nat i))"

text \<open>The shortest decimal form of a float is Python's own; it is the parameter \<open>frepr\<close>.\<close>

fun py_str :: "(real \<Rightarrow> string) \<Rightarrow> pyval \<Rightarrow> string" where
  "py_str frepr (PyInt i) = str_int i"
| "py_str frepr (PyFloat r) = frepr r"
| "py_str frepr (PyInf negative) = (if negative then ''-inf'' else ''inf'')"
| "py_str frepr PyNaN = ''nan''"
| "py_str frepr (PyBool b) = (if b then ''True'' else ''False'')"
| "py_str frepr (PyStr s) = s"

text \<open>
  \<^verbatim>\<open>df.astype({key: "str"})\<close>: KeyError when \<open>key\<close> is no column; otherwise every value of
  that column becomes its \<^verbatim>\<open>str\<close>, the other columns stay.
\<close>

definition astype_str :: "(real \<Rightarrow> string) \<Rightarrow> dataframe \<Rightarrow> string \<Rightarrow> exn + dataframe" where
  "astype_str frepr df key =
     (if key \<notin> set (columns df)
      then Inl (KeyError ''Only a column name can be used for the key in a dtype mappings argument.'')
      else Inr (AList.map_entry key (map (\<lambda>v. PyStr (py_str frepr v))) df))"

subsection \<open>Paths (pathlib, POSIX flavour)\<close>

text \<open>
  A pure path is its root (\<open>''''\<close>, \<open>''/''\<close> or \<open>''//''\<close>) and its components.
  \<open>split_sep\<close> is \<^verbatim>\<open>s.split("/")\<close>; \<open>Path\<close> parses one string as pathlib does: the
  root from the leading slashes (exactly two give \<open>''//''\<close>), empty and \<open>''.''\<close>
  components dropped.
\<close>

record pure_path =
  anchor :: string
  names :: "string list"

fun split_sep :: "string \<Rightarrow> string list" where
  "split_sep [] = [[]]"
| "split_sep (c # cs) =
     (if c = CHR ''/'' then [] # split_sep cs
      else (case split_sep cs of [] \<Rightarrow> [[c]] | x # xs \<Rightarrow> (c # x) # xs))"

definition splitroot :: "string \<Rightarrow> string" where
  "splitroot s =
     (let n = length (takeWhile (\<lambda>c. c = CHR ''/'') s)
      in if n = 0 then [] else if n = 2 then ''//'' else ''/'')"

definition Path :: "string \<Rightarrow> pure_path" where
  "Path s = \<lparr>anchor = splitroot s,
             names = filter (\<lambda>x. x \<noteq> [] \<and> x \<noteq> ''.'') (split_sep s)\<rparr>"

text \<open>\<^verbatim>\<open>p / key\<close> for a str \<open>key\<close>: a rooted \<open>key\<close> replaces \<open>p\<close>, any other is appended.\<close>

definition truediv :: "pure_path \<Rightarrow> string \<Rightarrow> pure_path" where
  "truediv p key =
     (let k = Path key
      in if anchor k \<noteq> [] then k else \<lparr>anchor = anchor p, names = names p @ names k\<rparr>)"



subsection \<open>The collaborators outside the module\<close>

text \<open>
  \<open>'w\<close> is the world outside the process (the file system, the logging configuration),
  \<open>'inv\<close> ObsPy's inventory object. A reader takes the world and returns its result, or
  the exception it raises, with the world after the call.
\<close>

record ('w, 'inv) ext =
  read_csv :: "string \<Rightarrow> string \<Rightarrow> 'w \<Rightarrow> (exn + dataframe) \<times> 'w"
  read_inventory :: "string \<Rightarrow> 'w \<Rightarrow> (exn + 'inv) \<times> 'w"
  float_repr :: "real \<Rightarrow> string"
  util_logger :: "pure_path \<Rightarrow> bool \<Rightarrow> 'w \<Rightarrow> (exn + unit) \<times> 'w"
  logging_info :: "string \<Rightarrow> 'w \<Rightarrow> 'w"
  log_spacer :: string

definition nl :: string where
  "nl = [CHR 0x0A]"

definition tab :: string where
  "tab = [CHR 0x09]"

definition apostrophe :: string where
  "apostrophe = [CHR 0x27]"

subsection \<open>read\_stations and its alias\<close>

text \<open>
  In Python \<^verbatim>\<open>("Latitude" or "Longitude" or "Elevation" or "Name")\<close> evaluates to its
  first operand, the non-empty str \<^verbatim>\<open>"Latitude"\<close>, so the header test of the source is
  \<^verbatim>\<open>"Latitude" not in stn_data.columns\<close>. The later steps raise KeyError by themselves
  when their column is missing.
\<close>

definition read_stations ::
  "('w, 'inv) ext \<Rightarrow> string \<Rightarrow> string \<Rightarrow> 'w \<Rightarrow> (exn + dataframe) \<times> 'w" where
  "read_stations e station_file delimiter w =
     (case read_csv e station_file delimiter w of
        (Inl err, w') \<Rightarrow> (Inl err, w')
      | (Inr stn_data, w') \<Rightarrow>
          if ''Latitude'' \<notin> set (columns stn_data) then (Inl StationFileHeaderException, w')
          else (case getitem stn_data ''Elevation'' of
                  Inl err \<Rightarrow> (Inl err, w')
                | Inr elevation \<Rightarrow>
                    (case astype_str (float_repr e)
                            (setitem stn_data ''Elevation''
                               (series_apply elevation elevation_lambda))
                            ''Name'' of
                       Inl err \<Rightarrow> (Inl err, w')
                     | Inr stn_data' \<Rightarrow> (Inr stn_data', w'))))"

text \<open>
  \<^verbatim>\<open>stations\<close> prints three lines and calls \<^verbatim>\<open>read_stations\<close>. The lines printed by the
  module itself are kept apart from the outside world, as a list of lines.
\<close>

definition future_warning :: "string list" where
  "future_warning =
     [''FutureWarning: function name has changed - continuing.'',
      ''To remove this message, change:'',
      tab @ apostrophe @ ''stations'' @ apostrophe @ '' -> '' @ apostrophe @ ''read_stations'' @ apostrophe]"

definition stations ::
  "('w, 'inv) ext \<Rightarrow> string \<Rightarrow> string \<Rightarrow> string list \<times> 'w \<Rightarrow> (exn + dataframe) \<times> string list \<times> 'w" where
  "stations e station_file delimiter s =
     (case s of (out, w) \<Rightarrow>
        (case read_stations e station_file delimiter w of
           (r, w') \<Rightarrow> (r, out @ future_warning, w')))"

subsection \<open>read\_response\_inv\<close>

definition read_response_inv ::
  "('w, 'inv) ext \<Rightarrow> string \<Rightarrow> bool \<Rightarrow> 'w \<Rightarrow> (exn + 'inv) \<times> 'w" where
  "read_response_inv e response_file sac_pz_format w =
     (if sac_pz_format
      then (Inl (NotImplementedError
                   ''SAC_PZ is not yet supported. Please contact the QuakeMigrate developers.''), w)
      else (case read_inventory e response_file w of
              (Inl (TypeError msg), w') \<Rightarrow>
                (Inl (TypeError (''Response file not readable by ObsPy: '' @ msg @ nl @
                                 ''Please consult the ObsPy documentation.'')), w')
            | (Inl err, w') \<Rightarrow> (Inl err, w')
            | (Inr response_inv, w') \<Rightarrow> (Inr response_inv, w')))"

subsection \<open>read\_vmodel\<close>

text \<open>
  As above, \<^verbatim>\<open>("Depth" or "Vp" or "Vs")\<close> evaluates to \<^verbatim>\<open>"Depth"\<close>.
\<close>

definition read_vmodel ::
  "('w, 'inv) ext \<Rightarrow> string \<Rightarrow> string \<Rightarrow> 'w \<Rightarrow> (exn + dataframe) \<times> 'w" where
  "read_vmodel e vmodel_file delimiter w =
     (case read_csv e vmodel_file delimiter w of
        (Inl err, w') \<Rightarrow> (Inl err, w')
      | (Inr vmodel_data, w') \<Rightarrow>
          if ''Depth'' \<notin> set (columns vmodel_data)
          then (Inl VelocityModelFileHeaderException, w')
          else (Inr vmodel_data, w'))"

subsection \<open>The class Run\<close>

text \<open>
  The attributes of a Run. \<open>priv_name\<close> is \<^verbatim>\<open>self._name\<close>; \<open>stage\<close> is \<open>None\<close> by
  default.
\<close>

record run =
  path :: pure_path
  priv_name :: string
  stage :: "string option"
  subname :: string

text \<open>\<^verbatim>\<open>s.replace(".", "_")\<close>.\<close>

definition replace_dot :: "string \<Rightarrow> string" where
  "replace_dot s = map (\<lambda>c. if c = CHR ''.'' then CHR ''_'' else c) s"

definition dot_warning :: string where
  "dot_warning =
     ''Warning: The character '' @ apostrophe @ ''.'' @ apostrophe @
     '' is not allowed in runnames/subnames - replacing with '' @ apostrophe @ ''_'' @
     apostrophe @ ''.''"

text \<open>\<^verbatim>\<open>Run.__init__\<close>: the new object and the lines printed so far.\<close>

definition Run_init ::
  "string \<Rightarrow> string \<Rightarrow> string \<Rightarrow> string option \<Rightarrow> string list \<Rightarrow> run \<times> string list" where
  "Run_init path' name' subname' stage' out =
     (let (name, subname, out) =
            (if CHR ''.'' \<in> set name' \<or> CHR ''.'' \<in> set subname'
             then (replace_dot name', replace_dot subname', out @ [dot_warning])
             else (name', subname', out))
      in (\<lparr>path = truediv (Path path') name,
           priv_name = name,
           stage = stage',
           subname = subname\<rparr>,
          out))"

text \<open>The property \<^verbatim>\<open>Run.name\<close>.\<close>

definition Run_name :: "run \<Rightarrow> string" where
  "Run_name self = (if subname self = [] then priv_name self
                    else priv_name self @ ''_'' @ subname self)"


text \<open>
  The log stem of \<^verbatim>\<open>Run.logger\<close>:
  \<^verbatim>\<open>self.path / self.stage / self.subname / "logs" / self.name\<close>. Dividing a path by
  \<open>None\<close> is a TypeError.
\<close>

definition logstem :: "run \<Rightarrow> exn + pure_path" where
  "logstem self =
     (case stage self of
        None \<Rightarrow> Inl (TypeError (''unsupported operand type(s) for /: '' @ apostrophe @
                                 ''PosixPath'' @ apostrophe @ '' and '' @ apostrophe @
                                 ''NoneType'' @ apostrophe))
      | Some st \<Rightarrow>
          Inr (truediv (truediv (truediv (truediv (path self) st) (subname self)) ''logs'')
                 (Run_name self)))"


subsection \<open>The words of the specification\<close>




text \<open>A string that starts with the separator: as a path it has a root.\<close>

fun rooted :: "string \<Rightarrow> bool" where
  "rooted [] = False"
| "rooted (c # cs) = (c = CHR ''/'')"

text \<open>The string has a character that is not the separator.\<close>

definition has_component :: "string \<Rightarrow> bool" where
  "has_component s = list_ex (\<lambda>c. c \<noteq> CHR ''/'') s"

subsection \<open>Concrete collaborators for the examples\<close>

text \<open>
  The world is the number of calls made to the collaborators. \<open>read_csv\<close> answers \<open>csv\<close>
  and \<open>read_inventory\<close> answers \<open>resp\<close>, whatever the file.
\<close>

definition demo_ext :: "exn + dataframe \<Rightarrow> exn + string \<Rightarrow> (nat, string) ext" where
  "demo_ext csv resp =
     \<lparr>read_csv = (\<lambda>file delimiter w. (csv, Suc w)),
      read_inventory = (\<lambda>file w. (resp, Suc w)),
      float_repr = (\<lambda>r. ''float''),
      util_logger = (\<lambda>stem log' w. (Inr (), Suc w)),
      logging_info = (\<lambda>msg w. Suc w),
      log_spacer = ''==''\<rparr>"

definition no_inventory :: "exn + string" where
  "no_inventory = Inl (OtherError ''FileNotFoundError'')"

definition no_table :: "exn + dataframe" where
  "no_table = Inl (OtherError ''FileNotFoundError'')"

definition unreadable :: "exn + string" where
  "unreadable = Inl (TypeError ''Unknown format for file resp.txt'')"

definition readable :: "exn + string" where
  "readable = Inr ''inventory''"

text \<open>The station file of the end-to-end scenario, as parsed.\<close>

definition st1_table :: dataframe where
  "st1_table =
     [(''Latitude'', [PyFloat 10]), (''Longitude'', [PyFloat 20]),
      (''Elevation'', [PyFloat 100]), (''Name'', [PyStr ''ST1''])]"

text \<open>A station file with no Longitude column, and one with a numeric Name column.\<close>

definition no_longitude_table :: dataframe where
  "no_longitude_table =
     [(''Latitude'', [PyFloat 10]), (''Elevation'', [PyFloat 100]), (''Name'', [PyStr ''ST1''])]"

definition numeric_name_table :: dataframe where
  "numeric_name_table =
     [(''Name'', [PyInt 101]), (''Elevation'', [PyInt 250]),
      (''Longitude'', [PyFloat 20]), (''Latitude'', [PyFloat 10])]"

text \<open>A velocity-model file with no Vp column.\<close>

definition no_vp_table :: dataframe where
  "no_vp_table = [(''Depth'', [PyFloat 0, PyFloat 1000]), (''Vs'', [PyFloat 2000, PyFloat 2500])]"

definition vmodel_table :: dataframe where
  "vmodel_table =
     [(''Depth'', [PyFloat 0, PyFloat 1000]), (''Vp'', [PyFloat 3500, PyFloat 4200]),
      (''Vs'', [PyFloat 2000, PyFloat 2500])]"

text \<open>Runs for the examples, as the constructor builds them.\<close>

definition dotted_run :: run where
  "dotted_run =
     \<lparr>path = \<lparr>anchor = ''/'', names = [''data'', ''run_1'']\<rparr>,
      priv_name = ''run_1'', stage = Some ''detect'', subname = ''a_b''\<rparr>"

definition plain_run :: run where
  "plain_run =
     \<lparr>path = \<lparr>anchor = ''/'', names = [''data'', ''run1'']\<rparr>,
      priv_name = ''run1'', stage = None, subname = []\<rparr>"

definition sub_run :: run where
  "sub_run =
     \<lparr>path = \<lparr>anchor = ''/'', names = [''data'', ''run1'']\<rparr>,
      priv_name = ''run1'', stage = None, subname = ''sub''\<rparr>"

section \<open>Properties\<close>

subsection \<open>Tables\<close>











subsection \<open>read\_response\_inv\<close>

text \<open>
  Claim C4. With \<^verbatim>\<open>sac_pz_format=True\<close> the response reader fails at once, for every
  path and whatever the inventory reader would do: it raises \<^verbatim>\<open>NotImplementedError\<close> (the
  specification's UnsupportedFormatError) and the world outside is the one it started
  from, so no read was attempted.
\<close>

theorem read_response_inv_sac_pz:
  "read_response_inv e response_file True w =
     (Inl (NotImplementedError
             ''SAC_PZ is not yet supported. Please contact the QuakeMigrate developers.''), w)"
  by (simp add: read_response_inv_def)

text \<open>
  Claim C5. With \<^verbatim>\<open>sac_pz_format=False\<close>: when the inventory reader raises a TypeError
  with message \<open>msg\<close>, leaving the world \<open>w'\<close>, the response reader raises a TypeError (the
  specification's ResponseFileUnreadableError) whose message is a fixed prefix, then
  \<open>msg\<close>, then a line of guidance, and leaves the same world \<open>w'\<close>: the world after one
  call of the reader, so there was one attempt and no retry. When the inventory reader
  returns an inventory, that inventory is returned as it is.
\<close>

theorem read_response_inv_delegates:
  "(read_inventory e response_file w = (Inl (TypeError msg), w') \<longrightarrow>
      read_response_inv e response_file False w =
        (Inl (TypeError (''Response file not readable by ObsPy: '' @ msg @ nl @
                         ''Please consult the ObsPy documentation.'')), w'))
   \<and> (read_inventory e response_file w = (Inr response_inv, w') \<longrightarrow>
      read_response_inv e response_file False w = (Inr response_inv, w'))"
  by (simp add: read_response_inv_def)

theorem read_response_inv_delegates_witness:
  "read_inventory (demo_ext no_table unreadable) ''resp.txt'' 0 =
     (Inl (TypeError ''Unknown format for file resp.txt''), 1)
   \<and> read_response_inv (demo_ext no_table unreadable) ''resp.txt'' False 0 =
     (Inl (TypeError (''Response file not readable by ObsPy: '' @
                      ''Unknown format for file resp.txt'' @ nl @
                      ''Please consult the ObsPy documentation.'')), 1)
   \<and> read_inventory (demo_ext no_table readable) ''resp.xml'' 0 = (Inr ''inventory'', 1)
   \<and> read_response_inv (demo_ext no_table readable) ''resp.xml'' False 0 =
     (Inr ''inventory'', 1)"
  using read_response_inv_delegates
          [where e = "demo_ext no_table unreadable" and response_file = "''resp.txt''"
             and w = 0 and w' = 1 and msg = "''Unknown format for file resp.txt''"]
        read_response_inv_delegates
          [where e = "demo_ext no_table readable" and response_file = "''resp.xml''"
             and w = 0 and w' = 1 and response_inv = "''inventory''"]
  by (simp add: demo_ext_def unreadable_def readable_def)

text \<open>Any other exception of the inventory reader passes through as it is.\<close>

lemma read_response_inv_other_error:
  assumes "read_inventory e response_file w = (Inl err, w')" and "\<forall>msg. err \<noteq> TypeError msg"
  shows "read_response_inv e response_file False w = (Inl err, w')"
  using assms by (cases err) (simp_all add: read_response_inv_def)

subsection \<open>read\_vmodel\<close>

text \<open>
  Claim C2, at a velocity-model file whose header is \<^verbatim>\<open>Depth,Vs\<close>: the Vp column is
  missing and \<^verbatim>\<open>read_vmodel\<close> raises nothing, it returns the table of two columns. The
  header test of the source looks for Depth only.
\<close>

theorem read_vmodel_missing_vp:
  "read_vmodel (demo_ext (Inr no_vp_table) no_inventory) ''vmodel.csv'' '','' 0 =
     (Inr [(''Depth'', [PyFloat 0, PyFloat 1000]), (''Vs'', [PyFloat 2000, PyFloat 2500])], 1)"
  by (simp add: read_vmodel_def demo_ext_def no_vp_table_def columns_def)

text \<open>
  What the header test of \<^verbatim>\<open>read_vmodel\<close> decides: the header exception is raised exactly
  when Depth is missing.
\<close>

lemma read_vmodel_header_test:
  assumes "read_csv e vmodel_file delimiter w = (Inr vmodel_data, w')"
  shows "(fst (read_vmodel e vmodel_file delimiter w) = Inl VelocityModelFileHeaderException) =
           (''Depth'' \<notin> set (columns vmodel_data))"
  using assms by (simp add: read_vmodel_def)

text \<open>
  Claim C9. When the parser returns a table and the header test of \<^verbatim>\<open>read_vmodel\<close> passes
  (the test the source makes: Depth is a column), \<^verbatim>\<open>read_vmodel\<close> returns that very table:
  the same columns in the same order with the same values, nothing negated and nothing
  converted.
\<close>

theorem read_vmodel_unchanged:
  assumes "read_csv e vmodel_file delimiter w = (Inr vmodel_data, w')"
    and "''Depth'' \<in> set (columns vmodel_data)"
  shows "read_vmodel e vmodel_file delimiter w = (Inr vmodel_data, w')"
  using assms by (simp add: read_vmodel_def)

theorem read_vmodel_unchanged_witness:
  "read_csv (demo_ext (Inr vmodel_table) no_inventory) ''vmodel.csv'' '','' 0 =
     (Inr vmodel_table, 1)
   \<and> ''Depth'' \<in> set (columns vmodel_table)
   \<and> read_vmodel (demo_ext (Inr vmodel_table) no_inventory) ''vmodel.csv'' '','' 0 =
     (Inr vmodel_table, 1)"
proof -
  have parsed: "read_csv (demo_ext (Inr vmodel_table) no_inventory) ''vmodel.csv'' '','' 0 =
     (Inr vmodel_table, 1)"
    by (simp add: demo_ext_def)
  have header: "''Depth'' \<in> set (columns vmodel_table)"
    by (simp add: vmodel_table_def columns_def)
  from read_vmodel_unchanged [OF parsed header] parsed header show ?thesis
    by simp
qed

subsection \<open>read\_stations and stations\<close>

text \<open>
  Claim C1, at a station file whose header is \<^verbatim>\<open>Latitude,Elevation,Name\<close>: the Longitude
  column is missing and \<^verbatim>\<open>read_stations\<close> raises nothing, it returns a table of three
  columns with the elevation negated. The header test of the source looks for Latitude
  only.
\<close>

theorem read_stations_missing_longitude:
  "read_stations (demo_ext (Inr no_longitude_table) no_inventory) ''stations.csv'' '','' 0 =
     (Inr [(''Latitude'', [PyFloat 10]), (''Elevation'', [PyFloat (- 100)]),
           (''Name'', [PyStr ''ST1''])], 1)"
  by (simp add: read_stations_def demo_ext_def no_longitude_table_def columns_def getitem_def
      setitem_def series_apply_def astype_str_def)



text \<open>
  The two examples of the specification, evaluated: the end-to-end scenario, and a file
  whose columns come in another order with a name made of digits.
\<close>

lemma read_stations_scenario:
  "read_stations (demo_ext (Inr st1_table) no_inventory) ''stations.csv'' '','' 0 =
     (Inr [(''Latitude'', [PyFloat 10]), (''Longitude'', [PyFloat 20]),
           (''Elevation'', [PyFloat (- 100)]), (''Name'', [PyStr ''ST1''])], 1)"
  by (simp add: read_stations_def demo_ext_def st1_table_def columns_def getitem_def
      setitem_def series_apply_def astype_str_def)

lemma read_stations_numeric_names:
  "read_stations (demo_ext (Inr numeric_name_table) no_inventory) ''stations.txt'' '';'' 0 =
     (Inr [(''Name'', [PyStr ''101'']), (''Elevation'', [PyInt (- 250)]),
           (''Longitude'', [PyFloat 20]), (''Latitude'', [PyFloat 10])], 1)"
proof -
  have "str_int 101 = ''101''"
    by code_simp
  then show ?thesis
    by (simp add: read_stations_def demo_ext_def numeric_name_table_def columns_def
        getitem_def setitem_def series_apply_def astype_str_def)
qed

text \<open>
  What the header test of \<^verbatim>\<open>read_stations\<close> decides: the header exception is raised
  exactly when Latitude is missing. A missing Elevation column, with Latitude present,
  is the KeyError of the column access.
\<close>

lemma read_stations_header_test:
  assumes "read_csv e station_file delimiter w = (Inr stn_data, w')"
  shows "(fst (read_stations e station_file delimiter w) = Inl StationFileHeaderException) =
           (''Latitude'' \<notin> set (columns stn_data))"
  using assms
  by (auto simp add: read_stations_def getitem_def astype_str_def
      split: option.splits sum.splits)

lemma read_stations_missing_elevation:
  assumes "read_csv e station_file delimiter w = (Inr stn_data, w')"
    and "''Latitude'' \<in> set (columns stn_data)"
    and "''Elevation'' \<notin> set (columns stn_data)"
  shows "read_stations e station_file delimiter w = (Inl (KeyError ''Elevation''), w')"
proof -
  have "map_of stn_data ''Elevation'' = None"
    using assms(3) by (simp add: columns_def map_of_eq_None_iff)
  then show ?thesis
    using assms(1,2) by (simp add: read_stations_def getitem_def)
qed

text \<open>
  Claim C10. The alias \<^verbatim>\<open>stations\<close> gives the result of \<^verbatim>\<open>read_stations\<close> on the same file
  and delimiter, the table or the exception alike, and leaves the outside world as
  \<^verbatim>\<open>read_stations\<close> leaves it. The one difference is the notice, three lines added to
  what the module has printed, whether the read succeeds or raises: that the name of the
  function has changed, that the message can be removed, and, after a tab, the old and
  the new name in single quotes with an arrow between them.
\<close>

theorem stations_alias:
  "stations e station_file delimiter (out, w) =
     (fst (read_stations e station_file delimiter w),
      out @ [''FutureWarning: function name has changed - continuing.'',
             ''To remove this message, change:'',
             [CHR 0x09, CHR 0x27] @ ''stations'' @ [CHR 0x27] @ '' -> '' @
               [CHR 0x27] @ ''read_stations'' @ [CHR 0x27]],
      snd (read_stations e station_file delimiter w))"
  by (simp add: stations_def future_warning_def tab_def apostrophe_def split: prod.splits)

subsection \<open>Paths\<close>

lemma split_sep_nonempty: "split_sep s \<noteq> []"
  by (induction s) (auto split: list.splits)

lemma split_sep_append: "split_sep (a @ CHR ''/'' # k) = split_sep a @ split_sep k"
proof (induction a)
  case Nil
  show ?case by simp
next
  case (Cons c a)
  then show ?case
    using split_sep_nonempty [of a] by (cases "split_sep a") auto
qed

lemma splitroot_append: "has_component a \<Longrightarrow> splitroot (a @ b) = splitroot a"
proof -
  assume "has_component a"
  then have "\<exists>c \<in> set a. \<not> c = CHR ''/''"
    by (simp add: has_component_def list_ex_iff)
  then have "takeWhile (\<lambda>c. c = CHR ''/'') (a @ b) = takeWhile (\<lambda>c. c = CHR ''/'') a"
    by (auto simp add: takeWhile_append1)
  then show ?thesis
    by (simp add: splitroot_def)
qed

lemma splitroot_relative: "\<not> rooted k \<Longrightarrow> splitroot k = []"
  by (cases k) (simp_all add: splitroot_def)

lemma has_component_append: "has_component a \<Longrightarrow> has_component (a @ b)"
  by (simp add: has_component_def)

lemma truediv_Path:
  assumes "has_component a" and "\<not> rooted k"
  shows "truediv (Path a) k = Path (a @ ''/'' @ k)"
  using assms
  by (simp add: truediv_def Path_def Let_def splitroot_relative splitroot_append
      split_sep_append)

lemma rooted_replace_dot: "rooted (replace_dot s) = rooted s"
  by (cases s) (simp_all add: replace_dot_def)

lemma rooted_Run_name: "\<not> rooted (priv_name self) \<Longrightarrow> \<not> rooted (Run_name self)"
  by (cases "priv_name self") (simp_all add: Run_name_def)

subsection \<open>The class Run\<close>


lemma replace_dot_id: "(replace_dot s = s) = (CHR ''.'' \<notin> set s)"
  by (induction s) (auto simp add: replace_dot_def)

lemma replace_dot_same: "CHR ''.'' \<notin> set s \<Longrightarrow> replace_dot s = s"
  by (simp add: replace_dot_id)

lemma Run_init_fields:
  "priv_name (fst (Run_init path' name' subname' stage' out)) = replace_dot name'"
  "subname (fst (Run_init path' name' subname' stage' out)) = replace_dot subname'"
  "stage (fst (Run_init path' name' subname' stage' out)) = stage'"
  "path (fst (Run_init path' name' subname' stage' out)) = truediv (Path path') (replace_dot name')"
  by (auto simp add: Run_init_def replace_dot_same)





text \<open>
  Claim C7. For every Run, the property \<^verbatim>\<open>name\<close> is the stored name when the subname is
  empty, and the stored name, then \<open>_\<close>, then the subname when it is not. For a Run built
  by the constructor from a non-empty subname with no \<open>.\<close> in it, that is the stored
  name, then \<open>_\<close>, then the subname given.
\<close>

theorem Run_name_effective:
  "(subname self = [] \<longrightarrow> Run_name self = priv_name self)
   \<and> (subname self \<noteq> [] \<longrightarrow> Run_name self = priv_name self @ ''_'' @ subname self)
   \<and> (subname' \<noteq> [] \<and> CHR ''.'' \<notin> set subname' \<longrightarrow>
        Run_name (fst (Run_init path' name' subname' stage' out)) =
          replace_dot name' @ ''_'' @ subname')"
  by (auto simp add: Run_name_def Run_init_fields replace_dot_same)

theorem Run_name_effective_witness:
  "subname plain_run = [] \<and> Run_name plain_run = ''run1''
   \<and> subname sub_run \<noteq> [] \<and> Run_name sub_run = ''run1_sub''
   \<and> CHR ''.'' \<notin> set ''sub''
   \<and> Run_name (fst (Run_init ''/data'' ''run.1'' ''sub'' None [])) = ''run_1_sub''"
proof -
  have fields: "subname plain_run = []" "priv_name plain_run = ''run1''"
    "subname sub_run = ''sub''" "priv_name sub_run = ''run1''"
    by (simp_all add: plain_run_def sub_run_def)
  have dots: "replace_dot ''run.1'' = ''run_1''"
    by (simp add: replace_dot_def)
  from Run_name_effective [where self = plain_run]
       Run_name_effective
         [where self = sub_run and subname' = "''sub''" and name' = "''run.1''"
            and path' = "''/data''" and stage' = None and out = "[]"]
  show ?thesis
    by (simp add: fields dots)
qed

text \<open>
  Claim C8, as it is written, at the base path \<^verbatim>\<open>/data\<close>, the name \<^verbatim>\<open>run\<close>, the subname
  \<^verbatim>\<open>sub\<close> and the stage \<^verbatim>\<open>detect\<close>: the log stem is not
  \<^verbatim>\<open>/data/run/detect/sub/logs/run\<close>. Its last component is the property \<^verbatim>\<open>name\<close> of the
  Run, here \<^verbatim>\<open>run_sub\<close>.
\<close>

theorem Run_layout_counterexample:
  "logstem (fst (Run_init ''/data'' ''run'' ''sub'' (Some ''detect'') [])) \<noteq>
     Inr (Path (''/data'' @ ''/'' @ ''run'' @ ''/'' @ ''detect'' @ ''/'' @ ''sub'' @
                ''/logs/'' @ ''run''))"
  by (simp add: logstem_def Run_init_def Run_name_def truediv_def Path_def splitroot_def Let_def)

text \<open>
  Claim C8, amended. Let the base path hold a character other than the separator, let
  the name, the subname and the stage not start with the separator, and let the stage be
  given. Then the root of the Run is the path \<^verbatim>\<open>{path}/{name}\<close> and the log stem is the
  path \<^verbatim>\<open>{path}/{name}/{stage}/{subname}/logs/{run name}\<close>, where name and subname are the
  stored ones and the run name is the property \<^verbatim>\<open>name\<close> of the Run: the stored name for an
  empty subname, the stored name, \<open>_\<close> and the subname otherwise. Both are paths as
  pathlib reads the string, so an empty subname leaves no component.
\<close>

theorem Run_layout:
  assumes base: "has_component path'"
    and rel: "\<not> rooted name'" "\<not> rooted subname'" "\<not> rooted st"
    and init: "Run_init path' name' subname' (Some st) out = (self, out')"
  shows "path self = Path (path' @ ''/'' @ priv_name self)
       \<and> logstem self =
           Inr (Path (path' @ ''/'' @ priv_name self @ ''/'' @ st @ ''/'' @ subname self @
                      ''/logs/'' @ Run_name self))"
proof -
  have self: "self = fst (Run_init path' name' subname' (Some st) out)"
    using init by simp
  have n: "\<not> rooted (priv_name self)" and s: "\<not> rooted (subname self)"
    using rel by (simp_all add: self Run_init_fields rooted_replace_dot)
  have root: "path self = Path (path' @ ''/'' @ priv_name self)"
    using base n by (simp add: self Run_init_fields truediv_Path)
  have stg: "stage self = Some st"
    by (simp add: self Run_init_fields)
  have c1: "has_component (path' @ ''/'' @ priv_name self)"
    using base by (rule has_component_append)
  have p1: "truediv (path self) st = Path (path' @ ''/'' @ priv_name self @ ''/'' @ st)"
    using truediv_Path [OF c1 rel(3)] by (simp add: root)
  have c2: "has_component (path' @ ''/'' @ priv_name self @ ''/'' @ st)"
    using base by (rule has_component_append)
  have p2: "truediv (truediv (path self) st) (subname self) =
              Path (path' @ ''/'' @ priv_name self @ ''/'' @ st @ ''/'' @ subname self)"
    using truediv_Path [OF c2 s] by (simp add: p1)
  have c3: "has_component (path' @ ''/'' @ priv_name self @ ''/'' @ st @ ''/'' @ subname self)"
    using base by (rule has_component_append)
  have l: "\<not> rooted ''logs''"
    by simp
  have p3: "truediv (truediv (truediv (path self) st) (subname self)) ''logs'' =
              Path (path' @ ''/'' @ priv_name self @ ''/'' @ st @ ''/'' @ subname self @
                    ''/logs'')"
    using truediv_Path [OF c3 l] by (simp add: p2)
  have c4: "has_component (path' @ ''/'' @ priv_name self @ ''/'' @ st @ ''/'' @ subname self @
                    ''/logs'')"
    using base by (rule has_component_append)
  have p4: "truediv (truediv (truediv (truediv (path self) st) (subname self)) ''logs'')
              (Run_name self) =
              Path (path' @ ''/'' @ priv_name self @ ''/'' @ st @ ''/'' @ subname self @
                    ''/logs/'' @ Run_name self)"
    using truediv_Path [OF c4 rooted_Run_name [OF n]] by (simp add: p3)
  show ?thesis
    using root p4 by (simp add: logstem_def stg)
qed

theorem Run_layout_witness:
  "has_component ''/data'' \<and> \<not> rooted ''run.1'' \<and> \<not> rooted ''a.b'' \<and> \<not> rooted ''detect''
   \<and> Run_init ''/data'' ''run.1'' ''a.b'' (Some ''detect'') [] = (dotted_run, [dot_warning])
   \<and> path dotted_run = Path ''/data/run_1''
   \<and> logstem dotted_run = Inr (Path ''/data/run_1/detect/a_b/logs/run_1_a_b'')"
proof -
  have base: "has_component ''/data''"
    by (simp add: has_component_def)
  have rel: "\<not> rooted ''run.1''" "\<not> rooted ''a.b''" "\<not> rooted ''detect''"
    by simp_all
  have init:
    "Run_init ''/data'' ''run.1'' ''a.b'' (Some ''detect'') [] = (dotted_run, [dot_warning])"
    by (simp add: Run_init_def dotted_run_def replace_dot_def truediv_def Path_def
        splitroot_def Let_def)
  have fields: "priv_name dotted_run = ''run_1''" "subname dotted_run = ''a_b''"
    "Run_name dotted_run = ''run_1_a_b''"
    by (simp_all add: dotted_run_def Run_name_def)
  from Run_layout [OF base rel init]
  have "path dotted_run = Path ''/data/run_1''
        \<and> logstem dotted_run = Inr (Path ''/data/run_1/detect/a_b/logs/run_1_a_b'')"
    by (simp add: fields)
  with base rel init show ?thesis
    by blast
qed

text \<open>With no stage (the default) the log stem is not computed: the division raises.\<close>

lemma logstem_no_stage: "stage self = None \<Longrightarrow> \<exists>msg. logstem self = Inl (TypeError msg)"
  by (simp add: logstem_def)

end
